theory Spec2Isabelle
  imports Main
begin

section \<open>Data model of server.js\<close>

text \<open>
  The server keeps two Mongoose collections (users, contacts) and a session store.
  ObjectIds and session ids are opaque tokens; both are modelled as naturals drawn from
  counters, so that an id allocated later is different from every id allocated before
  (the libraries draw them at random, collisions are idealised away).
  A request body is a map from field names to strings: a field that is absent
  (\<^verbatim>\<open>undefined\<close> after destructuring) is \<open>None\<close>.
\<close>

type_synonym oid = nat
type_synonym sid = nat
type_synonym body = "string \<rightharpoonup> string"

text \<open>UserSchema: username, email (unique), password, plus the document's \<^verbatim>\<open>_id\<close>.\<close>

record user =
  user_id :: oid
  username :: string
  email :: string
  password :: string

text \<open>ContactSchema (the date default is not modelled).\<close>

record contact =
  contact_name :: string
  contact_email :: string
  contact_message :: string
  contact_userId :: "oid option"

text \<open>The data of a session: the only property server.js ever sets is \<^verbatim>\<open>userId\<close>.\<close>

record session =
  userId :: "oid option"

text \<open>What is persisted between requests, with the two id allocators.\<close>

record app_state =
  users :: "user list"
  contacts :: "contact list"
  next_oid :: nat
  store :: "sid \<rightharpoonup> session"
  next_sid :: nat

datatype failure = StoreError | ValidationError | DuplicateKey | IllegalArguments

text \<open>
  The response of a handler: status, the text sent, whether
  \<^verbatim>\<open>res.clearCookie('connect.sid')\<close> was called, and the session cookie the session
  middleware sets when the response ends.
\<close>

record response =
  status :: nat
  sent :: string
  clearCookie :: bool
  setCookie :: "sid option"

text \<open>
  bcryptjs is a parameter: \<open>hash_fn plaintext cost salt\<close> is the hash string,
  \<open>compare_fn plaintext hash\<close> the verdict of \<^verbatim>\<open>bcrypt.compare\<close> on two strings.
\<close>

record bcrypt =
  hash_fn :: "string \<Rightarrow> nat \<Rightarrow> string \<Rightarrow> string"
  compare_fn :: "string \<Rightarrow> string \<Rightarrow> bool"

text \<open>
  What the environment decides during one request: whether the document store rejects
  the lookup or the write, whether the session store reports an error on destroy, the
  salt \<^verbatim>\<open>bcrypt.hash\<close> draws, and how the deployment's driver serialises an
  undefined filter value (dropped, or sent as \<^verbatim>\<open>null\<close>).
\<close>

record faults =
  findOne_fails :: bool
  save_fails :: bool
  destroy_fails :: bool
  salt :: string
  ignoreUndefined :: bool

text \<open>The library calls a handler makes, in the order it makes them.\<close>

datatype call =
    FindOne "string option"
  | BcryptHash "string option" nat
  | BcryptCompare "string option" string
  | UserSave "string option" "string option" string
  | Regenerate sid sid
  | SetUserId sid oid
  | Destroy sid
  | ClearCookie
  | ContactSave

text \<open>
  What a route handler sees: the persisted state, \<^verbatim>\<open>req.sessionID\<close>,
  \<^verbatim>\<open>req.session\<close> (\<open>None\<close> once the session was destroyed), the id and data the
  session middleware remembered when the request came in, and the calls made so far.
\<close>

record hst =
  app :: app_state
  sessionID :: sid
  sess :: "session option"
  originalId :: sid
  originalSession :: session
  calls :: "call list"

section \<open>Library operations used by the handlers\<close>

text \<open>
  \<^verbatim>\<open>User.findOne({ email })\<close>: the first user with that email, \<^verbatim>\<open>null\<close> when there
  is none; it rejects when the store cannot be reached. An undefined email is either
  dropped from the filter, which then matches the first user of the collection, or sent
  as \<^verbatim>\<open>null\<close>, which no stored user matches (every stored email is a string).
\<close>

definition findOne :: "faults \<Rightarrow> user list \<Rightarrow> string option \<Rightarrow> failure + user option" where
  "findOne f us e =
     (if findOne_fails f then Inl StoreError
      else case e of
             None \<Rightarrow>
               Inr (if ignoreUndefined f
                    then (case us of [] \<Rightarrow> None | u # _ \<Rightarrow> Some u)
                    else None)
           | Some a \<Rightarrow> Inr (find (\<lambda>u. email u = a) us))"

text \<open>
  \<^verbatim>\<open>bcrypt.hash(password, 10)\<close> rejects with "Illegal arguments" unless the password is
  a string; \<^verbatim>\<open>bcrypt.compare(password, hash)\<close> likewise.
\<close>

definition bcrypt_hash :: "bcrypt \<Rightarrow> faults \<Rightarrow> string option \<Rightarrow> nat \<Rightarrow> failure + string" where
  "bcrypt_hash B f p cost =
     (case p of
        None \<Rightarrow> Inl IllegalArguments
      | Some s \<Rightarrow> Inr (hash_fn B s cost (salt f)))"

definition bcrypt_compare :: "bcrypt \<Rightarrow> string option \<Rightarrow> string \<Rightarrow> failure + bool" where
  "bcrypt_compare B p h =
     (case p of
        None \<Rightarrow> Inl IllegalArguments
      | Some s \<Rightarrow> Inr (compare_fn B s h))"

text \<open>Mongoose's \<^verbatim>\<open>required: true\<close> on a String path: present and not empty.\<close>

definition required :: "string option \<Rightarrow> bool" where
  "required v = (case v of None \<Rightarrow> False | Some s \<Rightarrow> s \<noteq> [])"

text \<open>
  \<^verbatim>\<open>new User({ username, email, password: hashedPassword }).save()\<close>: document
  validation first, then the insert, which the unique index on email rejects with a
  duplicate-key error.
\<close>

definition user_save ::
  "faults \<Rightarrow> app_state \<Rightarrow> string option \<Rightarrow> string option \<Rightarrow> string \<Rightarrow> failure + app_state" where
  "user_save f a un em hp =
     (case (un, em) of
        (Some n, Some e) \<Rightarrow>
          if n = [] \<or> e = [] \<or> hp = [] then Inl ValidationError
          else if save_fails f then Inl StoreError
          else if find (\<lambda>u. email u = e) (users a) \<noteq> None then Inl DuplicateKey
          else Inr (a\<lparr>users := users a @
                        [\<lparr>user_id = next_oid a, username = n, email = e, password = hp\<rparr>],
                      next_oid := Suc (next_oid a)\<rparr>)
      | _ \<Rightarrow> Inl ValidationError)"

text \<open>\<^verbatim>\<open>new Contact({ name, email, message, userId }).save()\<close>.\<close>

definition contact_save ::
  "faults \<Rightarrow> app_state \<Rightarrow> string option \<Rightarrow> string option \<Rightarrow> string option \<Rightarrow> oid option
     \<Rightarrow> failure + app_state" where
  "contact_save f a nm em msg uid =
     (case (nm, em, msg) of
        (Some n, Some e, Some m) \<Rightarrow>
          if n = [] \<or> e = [] \<or> m = [] then Inl ValidationError
          else if save_fails f then Inl StoreError
          else Inr (a\<lparr>contacts := contacts a @
                        [\<lparr>contact_name = n, contact_email = e, contact_message = m,
                          contact_userId = uid\<rparr>]\<rparr>)
      | _ \<Rightarrow> Inl ValidationError)"

definition logcall :: "call \<Rightarrow> hst \<Rightarrow> hst" where
  "logcall c h = h\<lparr>calls := calls h @ [c]\<rparr>"

text \<open>
  \<^verbatim>\<open>req.session.regenerate(cb)\<close> (express-session): the store destroys the record of
  the current id, then a new session with a new id is generated whether or not the
  destroy worked, and the callback receives the destroy error.
\<close>

definition regenerate :: "faults \<Rightarrow> hst \<Rightarrow> bool \<times> hst" where
  "regenerate f h =
     (let a = app h;
          st = (if destroy_fails f then store a else (store a)(sessionID h := None))
      in (destroy_fails f,
          logcall (Regenerate (sessionID h) (next_sid a))
            (h\<lparr>app := a\<lparr>store := st, next_sid := Suc (next_sid a)\<rparr>,
               sessionID := next_sid a,
               sess := Some \<lparr>userId = None\<rparr>\<rparr>)))"

text \<open>
  \<^verbatim>\<open>req.session.destroy(cb)\<close>: \<^verbatim>\<open>req.session\<close> is deleted and the store removes the
  record of the current id; the callback receives the store's error.
\<close>

definition destroy :: "faults \<Rightarrow> hst \<Rightarrow> bool \<times> hst" where
  "destroy f h =
     (let a = app h;
          st = (if destroy_fails f then store a else (store a)(sessionID h := None))
      in (destroy_fails f,
          logcall (Destroy (sessionID h)) (h\<lparr>app := a\<lparr>store := st\<rparr>, sess := None\<rparr>)))"

section \<open>The route handlers\<close>

definition respond :: "nat \<Rightarrow> string \<Rightarrow> response" where
  "respond c m = \<lparr>status = c, sent = m, clearCookie = False, setCookie = None\<rparr>"

text \<open>
  POST /register after its first \<^verbatim>\<open>await\<close> found no user: hash, then save. Other
  requests may run between the lookup and this part, so it is a function of the state
  it resumes in.
\<close>

definition register_insert :: "bcrypt \<Rightarrow> faults \<Rightarrow> body \<Rightarrow> hst \<Rightarrow> response \<times> hst" where
  "register_insert B f b h0 =
     (let h1 = logcall (BcryptHash (b ''password'') 10) h0 in
      case bcrypt_hash B f (b ''password'') 10 of
        Inl err \<Rightarrow> (respond 500 ''Error registering user.'', h1)
      | Inr hashedPassword \<Rightarrow>
          (let h2 = logcall (UserSave (b ''username'') (b ''email'') hashedPassword) h1 in
           case user_save f (app h2) (b ''username'') (b ''email'') hashedPassword of
             Inl err \<Rightarrow> (respond 500 ''Error registering user.'', h2)
           | Inr a \<Rightarrow> (respond 201 ''User registered successfully!'', h2\<lparr>app := a\<rparr>)))"

text \<open>POST /register.\<close>

definition register :: "bcrypt \<Rightarrow> faults \<Rightarrow> body \<Rightarrow> hst \<Rightarrow> response \<times> hst" where
  "register B f b h0 =
     (let h1 = logcall (FindOne (b ''email'')) h0 in
      case findOne f (users (app h1)) (b ''email'') of
        Inl err \<Rightarrow> (respond 500 ''Error registering user.'', h1)
      | Inr (Some existingUser) \<Rightarrow> (respond 400 ''User already exists.'', h1)
      | Inr None \<Rightarrow> register_insert B f b h1)"

text \<open>POST /login.\<close>

definition login :: "bcrypt \<Rightarrow> faults \<Rightarrow> body \<Rightarrow> hst \<Rightarrow> response \<times> hst" where
  "login B f b h0 =
     (let h1 = logcall (FindOne (b ''email'')) h0 in
      case findOne f (users (app h1)) (b ''email'') of
        Inl err \<Rightarrow> (respond 500 ''Error logging in.'', h1)
      | Inr None \<Rightarrow> (respond 400 ''Invalid email or password.'', h1)
      | Inr (Some u) \<Rightarrow>
          (let h2 = logcall (BcryptCompare (b ''password'') (password u)) h1 in
           case bcrypt_compare B (b ''password'') (password u) of
             Inl err \<Rightarrow> (respond 500 ''Error logging in.'', h2)
           | Inr isMatch \<Rightarrow>
               if \<not> isMatch then (respond 400 ''Invalid email or password.'', h2)
               else (case regenerate f h2 of
                       (err, h3) \<Rightarrow>
                         if err then (respond 500 ''Error logging in.'', h3)
                         else (respond 200 ''Login successful!'',
                               logcall (SetUserId (sessionID h3) (user_id u))
                                 (h3\<lparr>sess := map_option (\<lambda>s. s\<lparr>userId := Some (user_id u)\<rparr>)
                                                (sess h3)\<rparr>)))))"

text \<open>POST /logout.\<close>

definition logout :: "faults \<Rightarrow> hst \<Rightarrow> response \<times> hst" where
  "logout f h0 =
     (case destroy f h0 of
        (err, h1) \<Rightarrow>
          if err then (respond 500 ''Error logging out.'', h1)
          else ((respond 200 ''Logout successful!'')\<lparr>clearCookie := True\<rparr>,
                logcall ClearCookie h1))"

text \<open>
  GET /dashboard. Reading \<^verbatim>\<open>req.session.userId\<close> when there is no session object
  throws, which Express answers with 500; the session middleware always provides one.
\<close>

definition dashboard :: "hst \<Rightarrow> response \<times> hst" where
  "dashboard h =
     (case sess h of
        None \<Rightarrow> (respond 500 ''Internal Server Error'', h)
      | Some s \<Rightarrow>
          (case userId s of
             None \<Rightarrow> (respond 401 ''Unauthorized. Please log in.'', h)
           | Some u \<Rightarrow> (respond 200 ''Welcome to your dashboard!'', h)))"

text \<open>POST /contact.\<close>

definition contact :: "faults \<Rightarrow> body \<Rightarrow> hst \<Rightarrow> response \<times> hst" where
  "contact f b h0 =
     (case sess h0 of
        None \<Rightarrow> (respond 500 ''Internal Server Error'', h0)
      | Some s \<Rightarrow>
          (let h1 = logcall ContactSave h0 in
           case contact_save f (app h1) (b ''name'') (b ''email'') (b ''message'') (userId s) of
             Inl err \<Rightarrow> (respond 500 ''Error submitting message.'', h1)
           | Inr a \<Rightarrow> (respond 201 ''Message submitted successfully!'', h1\<lparr>app := a\<rparr>)))"

section \<open>The session middleware around a handler\<close>

text \<open>
  The cookie is signed with the session secret: only a cookie carrying an id this
  server issued passes the signature check, any other is treated as absent.
\<close>

definition getcookie :: "app_state \<Rightarrow> sid option \<Rightarrow> sid option" where
  "getcookie a c =
     (case c of
        None \<Rightarrow> None
      | Some i \<Rightarrow> if i < next_sid a then Some i else None)"

definition generate :: "app_state \<Rightarrow> hst" where
  "generate a =
     \<lparr>app = a\<lparr>next_sid := Suc (next_sid a)\<rparr>,
      sessionID = next_sid a,
      sess = Some \<lparr>userId = None\<rparr>,
      originalId = next_sid a,
      originalSession = \<lparr>userId = None\<rparr>,
      calls = []\<rparr>"

text \<open>
  Before the handler: no accepted cookie, or a cookie whose id has no record in the
  store, gives a new empty session with a new id; otherwise the stored session is loaded.
\<close>

definition session_begin :: "app_state \<Rightarrow> sid option \<Rightarrow> hst" where
  "session_begin a c =
     (case getcookie a c of
        None \<Rightarrow> generate a
      | Some i \<Rightarrow>
          (case store a i of
             None \<Rightarrow> generate a
           | Some s \<Rightarrow>
               \<lparr>app = a, sessionID = i, sess = Some s, originalId = i,
                originalSession = s, calls = []\<rparr>))"

definition isModified :: "hst \<Rightarrow> session \<Rightarrow> bool" where
  "isModified h s = (originalId h \<noteq> sessionID h \<or> originalSession h \<noteq> s)"

text \<open>
  When the response ends (\<^verbatim>\<open>resave: false, saveUninitialized: false\<close>): a session
  that still exists and was modified is written to the store under the current id and
  its cookie is set; nothing happens otherwise.
\<close>

record outcome =
  reply :: response
  after :: app_state
  trace :: "call list"

definition session_end :: "response \<times> hst \<Rightarrow> outcome" where
  "session_end rh =
     (case rh of
        (r, h) \<Rightarrow>
          (case sess h of
             None \<Rightarrow> \<lparr>reply = r, after = app h, trace = calls h\<rparr>
           | Some s \<Rightarrow>
               if isModified h s
               then \<lparr>reply = r\<lparr>setCookie := Some (sessionID h)\<rparr>,
                     after = (app h)\<lparr>store := (store (app h))(sessionID h \<mapsto> s)\<rparr>,
                     trace = calls h\<rparr>
               else \<lparr>reply = r, after = app h, trace = calls h\<rparr>))"

datatype endpoint = Register body | Login body | Logout | Dashboard | Contact body

record request =
  cookie :: "sid option"
  target :: endpoint
  env :: faults

definition route :: "bcrypt \<Rightarrow> faults \<Rightarrow> endpoint \<Rightarrow> hst \<Rightarrow> response \<times> hst" where
  "route B f t h =
     (case t of
        Register b \<Rightarrow> register B f b h
      | Login b \<Rightarrow> login B f b h
      | Logout \<Rightarrow> logout f h
      | Dashboard \<Rightarrow> dashboard h
      | Contact b \<Rightarrow> contact f b h)"

text \<open>One request, handled from arrival to the end of the response.\<close>

definition serve :: "bcrypt \<Rightarrow> app_state \<Rightarrow> request \<Rightarrow> outcome" where
  "serve B a r = session_end (route B (env r) (target r) (session_begin a (cookie r)))"

text \<open>A sequence of requests, one after the other.\<close>

fun run :: "bcrypt \<Rightarrow> app_state \<Rightarrow> request list \<Rightarrow> app_state" where
  "run B a [] = a"
| "run B a (r # rs) = run B (after (serve B a r)) rs"

text \<open>The user id bound to a session id in the store, if any.\<close>

definition bound :: "app_state \<Rightarrow> sid \<Rightarrow> oid option" where
  "bound a i = (case store a i of None \<Rightarrow> None | Some s \<Rightarrow> userId s)"

section \<open>Sample data\<close>

text \<open>
  A toy hasher, an environment without faults and one whose session store fails on
  destroy, and three states: empty, with the user alice registered, and with alice
  logged in under session id 3.
\<close>

definition sample_bcrypt :: bcrypt where
  "sample_bcrypt =
     \<lparr>hash_fn = (\<lambda>p c s. s @ ''$'' @ p), compare_fn = (\<lambda>p h. h = ''salt$'' @ p)\<rparr>"

definition no_faults :: faults where
  "no_faults =
     \<lparr>findOne_fails = False, save_fails = False, destroy_fails = False, salt = ''salt'',
      ignoreUndefined = False\<rparr>"

definition destroy_fault :: faults where
  "destroy_fault =
     \<lparr>findOne_fails = False, save_fails = False, destroy_fails = True, salt = ''salt'',
      ignoreUndefined = False\<rparr>"

definition alice :: user where
  "alice = \<lparr>user_id = 7, username = ''alice'', email = ''a@x.com'', password = ''salt$secret''\<rparr>"

definition app_empty :: app_state where
  "app_empty = \<lparr>users = [], contacts = [], next_oid = 0, store = Map.empty, next_sid = 0\<rparr>"

definition app_alice :: app_state where
  "app_alice = \<lparr>users = [alice], contacts = [], next_oid = 8, store = Map.empty, next_sid = 0\<rparr>"

definition app_session :: app_state where
  "app_session =
     \<lparr>users = [alice], contacts = [], next_oid = 8,
      store = [3 \<mapsto> \<lparr>userId = Some 7\<rparr>], next_sid = 4\<rparr>"

definition alice_form :: body where
  "alice_form = [''username'' \<mapsto> ''alice'', ''email'' \<mapsto> ''a@x.com'', ''password'' \<mapsto> ''secret'']"

definition second_form :: body where
  "second_form = [''username'' \<mapsto> ''alicia'', ''email'' \<mapsto> ''a@x.com'', ''password'' \<mapsto> ''other'']"

definition no_username :: body where
  "no_username = [''email'' \<mapsto> ''a@x.com'', ''password'' \<mapsto> ''secret'']"

definition empty_password :: body where
  "empty_password = [''username'' \<mapsto> ''alice'', ''email'' \<mapsto> ''a@x.com'', ''password'' \<mapsto> []]"

definition credentials :: body where
  "credentials = [''email'' \<mapsto> ''a@x.com'', ''password'' \<mapsto> ''secret'']"

definition wrong_password :: body where
  "wrong_password = [''email'' \<mapsto> ''a@x.com'', ''password'' \<mapsto> ''guess'']"

definition no_password :: body where
  "no_password = [''email'' \<mapsto> ''a@x.com'']"

definition unknown_no_password :: body where
  "unknown_no_password = [''email'' \<mapsto> ''b@x.com'']"

definition unknown_email :: body where
  "unknown_email = [''email'' \<mapsto> ''b@x.com'', ''password'' \<mapsto> ''secret'']"

lemmas sample_defs = sample_bcrypt_def no_faults_def destroy_fault_def alice_def app_empty_def
  app_alice_def app_session_def alice_form_def second_form_def no_username_def empty_password_def credentials_def
  wrong_password_def unknown_email_def no_password_def unknown_no_password_def

section \<open>Properties\<close>

subsection \<open>The call log\<close>

lemma logcall_simps:
  "app (logcall c h) = app h"
  "sess (logcall c h) = sess h"
  "sessionID (logcall c h) = sessionID h"
  "originalId (logcall c h) = originalId h"
  "originalSession (logcall c h) = originalSession h"
  "calls (logcall c h) = calls h @ [c]"
  by (simp_all add: logcall_def)

subsection \<open>The session middleware\<close>

lemma session_begin_app:
  "users (app (session_begin a c)) = users a"
  "contacts (app (session_begin a c)) = contacts a"
  "next_oid (app (session_begin a c)) = next_oid a"
  "store (app (session_begin a c)) = store a"
  by (simp_all add: session_begin_def generate_def split: option.splits)

lemma session_begin_unmodified:
  "sess (session_begin a c) = Some (originalSession (session_begin a c))"
  "originalId (session_begin a c) = sessionID (session_begin a c)"
  "calls (session_begin a c) = []"
  by (simp_all add: session_begin_def generate_def split: option.splits)

lemma session_begin_ids:
  "next_sid a \<le> next_sid (app (session_begin a c))"
  "sessionID (session_begin a c) < next_sid (app (session_begin a c))"
  by (simp_all add: session_begin_def generate_def getcookie_def split: option.splits if_splits)

lemma session_begin_loaded:
  "i < next_sid a \<Longrightarrow> store a i = Some s \<Longrightarrow>
   session_begin a (Some i) =
     \<lparr>app = a, sessionID = i, sess = Some s, originalId = i, originalSession = s, calls = []\<rparr>"
  by (simp add: session_begin_def getcookie_def)

lemma session_begin_absent:
  "store a i = None \<Longrightarrow> session_begin a (Some i) = generate a"
  by (simp add: session_begin_def getcookie_def)

lemma session_begin_other:
  "store a i = None \<Longrightarrow> i < next_sid a \<Longrightarrow> sessionID (session_begin a c) \<noteq> i"
  by (auto simp: session_begin_def generate_def getcookie_def split: option.splits if_splits)

lemma session_end_unmodified:
  "sess h = Some (originalSession h) \<Longrightarrow> originalId h = sessionID h \<Longrightarrow>
   session_end (r, h) = \<lparr>reply = r, after = app h, trace = calls h\<rparr>"
  by (simp add: session_end_def isModified_def)

lemma session_end_destroyed:
  "sess h = None \<Longrightarrow> session_end (r, h) = \<lparr>reply = r, after = app h, trace = calls h\<rparr>"
  by (simp add: session_end_def)

lemma session_end_regenerated:
  "sess h = Some s \<Longrightarrow> originalId h \<noteq> sessionID h \<Longrightarrow>
   session_end (r, h) =
     \<lparr>reply = r\<lparr>setCookie := Some (sessionID h)\<rparr>,
      after = (app h)\<lparr>store := (store (app h))(sessionID h \<mapsto> s)\<rparr>,
      trace = calls h\<rparr>"
  by (simp add: session_end_def isModified_def)

subsection \<open>Handlers that leave the session alone\<close>

lemma user_save_Inr:
  "user_save f a un em hp = Inr a' \<Longrightarrow>
   \<exists>n e. un = Some n \<and> em = Some e \<and> n \<noteq> [] \<and> e \<noteq> [] \<and> hp \<noteq> [] \<and>
     a' = a\<lparr>users := users a @ [\<lparr>user_id = next_oid a, username = n, email = e, password = hp\<rparr>],
            next_oid := Suc (next_oid a)\<rparr>"
  by (auto simp: user_save_def split: option.splits if_splits)

lemma user_save_invalid:
  "\<not> required un \<or> \<not> required em \<Longrightarrow> user_save f a un em hp = Inl ValidationError"
  by (auto simp: user_save_def required_def split: option.splits)

lemma contact_save_Inr:
  "contact_save f a nm em msg uid = Inr a' \<Longrightarrow>
   store a' = store a \<and> next_sid a' = next_sid a \<and> users a' = users a"
  by (auto simp: contact_save_def split: option.splits if_splits)

lemma register_insert_session:
  "sess (snd (register_insert B f b h)) = sess h"
  "sessionID (snd (register_insert B f b h)) = sessionID h"
  "originalId (snd (register_insert B f b h)) = originalId h"
  "originalSession (snd (register_insert B f b h)) = originalSession h"
  by (simp_all add: register_insert_def logcall_def Let_def split: sum.splits)

lemma register_session:
  "sess (snd (register B f b h)) = sess h"
  "sessionID (snd (register B f b h)) = sessionID h"
  "originalId (snd (register B f b h)) = originalId h"
  "originalSession (snd (register B f b h)) = originalSession h"
  by (simp_all add: register_def register_insert_session logcall_def Let_def
        split: sum.splits option.splits)

lemma contact_session:
  "sess (snd (contact f b h)) = sess h"
  "sessionID (snd (contact f b h)) = sessionID h"
  "originalId (snd (contact f b h)) = originalId h"
  "originalSession (snd (contact f b h)) = originalSession h"
  by (simp_all add: contact_def logcall_def Let_def split: sum.splits option.splits)

lemma serve_register:
  "target r = Register b \<Longrightarrow>
   serve B a r =
     \<lparr>reply = fst (register B (env r) b (session_begin a (cookie r))),
      after = app (snd (register B (env r) b (session_begin a (cookie r)))),
      trace = calls (snd (register B (env r) b (session_begin a (cookie r))))\<rparr>"
  using session_end_unmodified
          [of "snd (register B (env r) b (session_begin a (cookie r)))"
              "fst (register B (env r) b (session_begin a (cookie r)))"]
  by (simp add: serve_def route_def register_session session_begin_unmodified)

lemma serve_contact:
  "target r = Contact b \<Longrightarrow>
   serve B a r =
     \<lparr>reply = fst (contact (env r) b (session_begin a (cookie r))),
      after = app (snd (contact (env r) b (session_begin a (cookie r)))),
      trace = calls (snd (contact (env r) b (session_begin a (cookie r))))\<rparr>"
  using session_end_unmodified
          [of "snd (contact (env r) b (session_begin a (cookie r)))"
              "fst (contact (env r) b (session_begin a (cookie r)))"]
  by (simp add: serve_def route_def contact_session session_begin_unmodified)

lemma serve_dashboard:
  "target r = Dashboard \<Longrightarrow>
   serve B a r =
     \<lparr>reply = fst (dashboard (session_begin a (cookie r))),
      after = app (session_begin a (cookie r)),
      trace = []\<rparr>"
  using session_end_unmodified
          [of "session_begin a (cookie r)" "fst (dashboard (session_begin a (cookie r)))"]
  by (simp add: serve_def route_def dashboard_def session_begin_unmodified
        split: option.splits)

subsection \<open>Registration\<close>

lemma register_insert_201:
  assumes "status (fst (register_insert B f b h)) = 201"
  shows "\<exists>n e p. b ''username'' = Some n \<and> b ''email'' = Some e \<and> b ''password'' = Some p \<and>
           register_insert B f b h =
             (respond 201 ''User registered successfully!'',
              h\<lparr>calls := calls h @ [BcryptHash (Some p) 10,
                                    UserSave (Some n) (Some e) (hash_fn B p 10 (salt f))],
                app := (app h)\<lparr>users := users (app h) @
                                   [\<lparr>user_id = next_oid (app h), username = n, email = e,
                                     password = hash_fn B p 10 (salt f)\<rparr>],
                                next_oid := Suc (next_oid (app h))\<rparr>\<rparr>)"
proof (cases "b ''password''")
  case None
  with assms show ?thesis
    by (simp add: register_insert_def bcrypt_hash_def respond_def)
next
  case (Some p)
  let ?hp = "hash_fn B p 10 (salt f)"
  show ?thesis
  proof (cases "user_save f (app h) (b ''username'') (b ''email'') ?hp")
    case (Inl e)
    with assms Some show ?thesis
      by (simp add: register_insert_def bcrypt_hash_def respond_def logcall_def)
  next
    case (Inr a')
    from user_save_Inr[OF Inr] obtain n e where
      "b ''username'' = Some n" "b ''email'' = Some e"
      "a' = (app h)\<lparr>users := users (app h) @
                [\<lparr>user_id = next_oid (app h), username = n, email = e, password = ?hp\<rparr>],
              next_oid := Suc (next_oid (app h))\<rparr>"
      by blast
    with Inr Some show ?thesis
      by (simp add: register_insert_def bcrypt_hash_def logcall_def)
  qed
qed

lemma register_201:
  assumes "status (fst (register B f b h)) = 201"
  shows "findOne f (users (app h)) (b ''email'') = Inr None \<and>
         register B f b h = register_insert B f b (logcall (FindOne (b ''email'')) h)"
proof (cases "findOne f (users (app h)) (b ''email'')")
  case (Inl e)
  with assms show ?thesis by (simp add: register_def respond_def logcall_simps Let_def)
next
  case (Inr x)
  with assms show ?thesis
    by (cases x) (simp_all add: register_def respond_def logcall_simps Let_def)
qed

lemma register_insert_incomplete:
  assumes "\<not> required (b ''username'') \<or> \<not> required (b ''email'') \<or> b ''password'' = None"
  shows "fst (register_insert B f b h) = respond 500 ''Error registering user.'' \<and>
         app (snd (register_insert B f b h)) = app h"
proof (cases "b ''password''")
  case None
  then show ?thesis by (simp add: register_insert_def bcrypt_hash_def logcall_simps)
next
  case (Some p)
  with assms have "\<not> required (b ''username'') \<or> \<not> required (b ''email'')" by simp
  from user_save_invalid[OF this] Some show ?thesis
    by (simp add: register_insert_def bcrypt_hash_def logcall_simps)
qed

lemma register_insert_stores:
  "store (app (snd (register_insert B f b h))) = store (app h)"
  "next_sid (app (snd (register_insert B f b h))) = next_sid (app h)"
  by (auto simp: register_insert_def logcall_simps Let_def dest!: user_save_Inr
        split: sum.splits)

lemma register_insert_calls:
  "SetUserId i v \<in> set (calls (snd (register_insert B f b h))) \<Longrightarrow>
   SetUserId i v \<in> set (calls h)"
  by (auto simp: register_insert_def logcall_simps Let_def split: sum.splits)

lemma register_stores:
  "store (app (snd (register B f b h))) = store (app h)"
  "next_sid (app (snd (register B f b h))) = next_sid (app h)"
  by (simp_all add: register_def register_insert_stores logcall_simps Let_def
        split: sum.splits option.splits)

lemma register_calls:
  "SetUserId i v \<in> set (calls (snd (register B f b h))) \<Longrightarrow>
   SetUserId i v \<in> set (calls h)"
  by (auto simp: register_def logcall_simps Let_def dest!: register_insert_calls
        split: sum.splits option.splits)

lemma contact_stores:
  "store (app (snd (contact f b h))) = store (app h)"
  "next_sid (app (snd (contact f b h))) = next_sid (app h)"
  by (auto simp: contact_def logcall_simps Let_def dest!: contact_save_Inr
        split: sum.splits option.splits)

lemma contact_calls:
  "SetUserId i v \<in> set (calls (snd (contact f b h))) \<Longrightarrow>
   SetUserId i v \<in> set (calls h)"
  by (auto simp: contact_def logcall_simps Let_def split: sum.splits option.splits)

subsection \<open>Login and logout, from arrival to the end of the response\<close>

lemma login_verified:
  assumes "findOne f (users (app h)) (b ''email'') = Inr (Some u)"
      and "bcrypt_compare B (b ''password'') (password u) = Inr True"
  shows "login B f b h =
           (if destroy_fails f
            then (respond 500 ''Error logging in.'',
                  h\<lparr>app := (app h)\<lparr>next_sid := Suc (next_sid (app h))\<rparr>,
                    sessionID := next_sid (app h),
                    sess := Some \<lparr>userId = None\<rparr>,
                    calls := calls h @
                      [FindOne (b ''email''), BcryptCompare (b ''password'') (password u),
                       Regenerate (sessionID h) (next_sid (app h))]\<rparr>)
            else (respond 200 ''Login successful!'',
                  h\<lparr>app := (app h)\<lparr>store := (store (app h))(sessionID h := None),
                                   next_sid := Suc (next_sid (app h))\<rparr>,
                    sessionID := next_sid (app h),
                    sess := Some \<lparr>userId = Some (user_id u)\<rparr>,
                    calls := calls h @
                      [FindOne (b ''email''), BcryptCompare (b ''password'') (password u),
                       Regenerate (sessionID h) (next_sid (app h)),
                       SetUserId (next_sid (app h)) (user_id u)]\<rparr>))"
  using assms by (simp add: login_def regenerate_def logcall_def Let_def)

lemma login_rejected:
  assumes "\<not> (\<exists>u. findOne f (users (app h)) (b ''email'') = Inr (Some u) \<and>
                 bcrypt_compare B (b ''password'') (password u) = Inr True)"
  shows "app (snd (login B f b h)) = app h"
        "sess (snd (login B f b h)) = sess h"
        "sessionID (snd (login B f b h)) = sessionID h"
        "originalId (snd (login B f b h)) = originalId h"
        "originalSession (snd (login B f b h)) = originalSession h"
        "status (fst (login B f b h)) \<noteq> 200"
        "SetUserId i v \<in> set (calls (snd (login B f b h))) \<Longrightarrow> SetUserId i v \<in> set (calls h)"
  using assms
  by (auto simp: login_def logcall_simps respond_def Let_def split: sum.splits option.splits)

lemma serve_login_ok:
  assumes "target r = Login b"
      and "findOne (env r) (users a) (b ''email'') = Inr (Some u)"
      and "bcrypt_compare B (b ''password'') (password u) = Inr True"
      and "\<not> destroy_fails (env r)"
  shows "serve B a r =
           \<lparr>reply = (respond 200 ''Login successful!'')
                      \<lparr>setCookie := Some (next_sid (app (session_begin a (cookie r))))\<rparr>,
            after = (app (session_begin a (cookie r)))
                      \<lparr>store := ((store a)(sessionID (session_begin a (cookie r)) := None))
                                  (next_sid (app (session_begin a (cookie r))) \<mapsto>
                                     \<lparr>userId = Some (user_id u)\<rparr>),
                       next_sid := Suc (next_sid (app (session_begin a (cookie r))))\<rparr>,
            trace = [FindOne (b ''email''), BcryptCompare (b ''password'') (password u),
                     Regenerate (sessionID (session_begin a (cookie r)))
                                (next_sid (app (session_begin a (cookie r)))),
                     SetUserId (next_sid (app (session_begin a (cookie r)))) (user_id u)]\<rparr>"
proof -
  let ?h0 = "session_begin a (cookie r)"
  have found: "findOne (env r) (users (app ?h0)) (b ''email'') = Inr (Some u)"
    using assms(2) by (simp add: session_begin_app)
  have fresh: "originalId ?h0 \<noteq> next_sid (app ?h0)"
    using session_begin_ids(2)[of a "cookie r"] by (simp add: session_begin_unmodified)
  show ?thesis
    using assms(1,4) fresh
    by (simp add: serve_def route_def login_verified[OF found assms(3)]
          session_end_regenerated session_begin_app session_begin_unmodified)
qed

lemma serve_login_regen_failed:
  assumes "target r = Login b"
      and "findOne (env r) (users a) (b ''email'') = Inr (Some u)"
      and "bcrypt_compare B (b ''password'') (password u) = Inr True"
      and "destroy_fails (env r)"
  shows "serve B a r =
           \<lparr>reply = (respond 500 ''Error logging in.'')
                      \<lparr>setCookie := Some (next_sid (app (session_begin a (cookie r))))\<rparr>,
            after = (app (session_begin a (cookie r)))
                      \<lparr>next_sid := Suc (next_sid (app (session_begin a (cookie r)))),
                       store := (store a)(next_sid (app (session_begin a (cookie r))) \<mapsto>
                                     \<lparr>userId = None\<rparr>)\<rparr>,
            trace = [FindOne (b ''email''), BcryptCompare (b ''password'') (password u),
                     Regenerate (sessionID (session_begin a (cookie r)))
                                (next_sid (app (session_begin a (cookie r))))]\<rparr>"
proof -
  let ?h0 = "session_begin a (cookie r)"
  have found: "findOne (env r) (users (app ?h0)) (b ''email'') = Inr (Some u)"
    using assms(2) by (simp add: session_begin_app)
  have fresh: "originalId ?h0 \<noteq> next_sid (app ?h0)"
    using session_begin_ids(2)[of a "cookie r"] by (simp add: session_begin_unmodified)
  show ?thesis
    using assms(1,4) fresh
    by (simp add: serve_def route_def login_verified[OF found assms(3)]
          session_end_regenerated session_begin_app session_begin_unmodified)
qed

lemma serve_login_rejected:
  assumes "target r = Login b"
      and "\<not> (\<exists>u. findOne (env r) (users a) (b ''email'') = Inr (Some u) \<and>
                 bcrypt_compare B (b ''password'') (password u) = Inr True)"
  shows "serve B a r =
           \<lparr>reply = fst (login B (env r) b (session_begin a (cookie r))),
            after = app (session_begin a (cookie r)),
            trace = calls (snd (login B (env r) b (session_begin a (cookie r))))\<rparr>"
proof -
  let ?h0 = "session_begin a (cookie r)"
  have rej: "\<not> (\<exists>u. findOne (env r) (users (app ?h0)) (b ''email'') = Inr (Some u) \<and>
                 bcrypt_compare B (b ''password'') (password u) = Inr True)"
    using assms(2) by (simp add: session_begin_app)
  show ?thesis
    using assms(1) session_end_unmodified
          [of "snd (login B (env r) b ?h0)" "fst (login B (env r) b ?h0)"]
    by (simp add: serve_def route_def login_rejected[OF rej] session_begin_unmodified)
qed

lemma serve_logout:
  "target r = Logout \<Longrightarrow>
   serve B a r =
     (if destroy_fails (env r)
      then \<lparr>reply = respond 500 ''Error logging out.'',
            after = app (session_begin a (cookie r)),
            trace = [Destroy (sessionID (session_begin a (cookie r)))]\<rparr>
      else \<lparr>reply = (respond 200 ''Logout successful!'')\<lparr>clearCookie := True\<rparr>,
            after = (app (session_begin a (cookie r)))
                      \<lparr>store := (store a)(sessionID (session_begin a (cookie r)) := None)\<rparr>,
            trace = [Destroy (sessionID (session_begin a (cookie r))), ClearCookie]\<rparr>)"
  by (simp add: serve_def route_def logout_def destroy_def logcall_def Let_def
        session_end_destroyed session_begin_app session_begin_unmodified)

lemma serve_keeps_destroyed:
  assumes "i < next_sid a" and "store a i = None"
  shows "i < next_sid (after (serve B a r)) \<and> store (after (serve B a r)) i = None"
proof -
  let ?h0 = "session_begin a (cookie r)"
  have le: "next_sid a \<le> next_sid (app ?h0)" and lt: "sessionID ?h0 < next_sid (app ?h0)"
    by (rule session_begin_ids)+
  have other: "sessionID ?h0 \<noteq> i"
    by (rule session_begin_other[OF assms(2,1)])
  have i: "i < next_sid (app ?h0)" using assms(1) le by simp
  show ?thesis
  proof (cases "target r")
    case (Register b)
    with i assms(2) show ?thesis
      by (simp add: serve_register register_stores session_begin_app)
  next
    case (Login b)
    show ?thesis
    proof (cases "\<exists>u. findOne (env r) (users a) (b ''email'') = Inr (Some u) \<and>
                     bcrypt_compare B (b ''password'') (password u) = Inr True")
      case False
      with Login i assms(2) show ?thesis
        by (simp add: serve_login_rejected session_begin_app)
    next
      case True
      then obtain u where u: "findOne (env r) (users a) (b ''email'') = Inr (Some u)"
          "bcrypt_compare B (b ''password'') (password u) = Inr True"
        by blast
      show ?thesis
      proof (cases "destroy_fails (env r)")
        case True
        with i assms(2) show ?thesis
          by (simp add: serve_login_regen_failed[OF Login u True])
      next
        case False
        with i assms(2) show ?thesis
          by (simp add: serve_login_ok[OF Login u False])
      qed
    qed
  next
    case Logout
    with i assms(2) show ?thesis
      by (simp add: serve_logout session_begin_app)
  next
    case Dashboard
    with i assms(2) show ?thesis
      by (simp add: serve_dashboard session_begin_app)
  next
    case (Contact b)
    with i assms(2) show ?thesis
      by (simp add: serve_contact contact_stores session_begin_app)
  qed
qed

lemma run_keeps_destroyed:
  "i < next_sid a \<Longrightarrow> store a i = None \<Longrightarrow>
   i < next_sid (run B a rs) \<and> store (run B a rs) i = None"
proof (induction rs arbitrary: a)
  case Nil
  then show ?case by simp
next
  case (Cons r rs)
  from serve_keeps_destroyed[OF Cons.prems, of B r]
  have "i < next_sid (after (serve B a r))" "store (after (serve B a r)) i = None"
    by simp_all
  from Cons.IH[OF this] show ?case by simp
qed

lemma dashboard_destroyed:
  assumes "target d = Dashboard" and "cookie d = Some i" and "store a i = None"
  shows "reply (serve B a d) = respond 401 ''Unauthorized. Please log in.''"
  using assms
  by (simp add: serve_dashboard session_begin_absent generate_def dashboard_def)

lemma session_begin_none:
  "session_begin a None = generate a"
  by (simp add: session_begin_def getcookie_def)

lemma session_begin_app_session:
  "session_begin app_session (Some 3) =
     \<lparr>app = app_session, sessionID = 3, sess = Some \<lparr>userId = Some 7\<rparr>, originalId = 3,
      originalSession = \<lparr>userId = Some 7\<rparr>, calls = []\<rparr>"
  by (rule session_begin_loaded) (simp_all add: app_session_def)

section \<open>Session regeneration at login\<close>

text \<open>
  C1. When the lookup finds the user, the password verifies and the session store
  destroys the old record, POST /login answers 200 and the session is regenerated
  before the user id is written: the trace is lookup, compare, regenerate, then the
  assignment of \<^verbatim>\<open>userId\<close> to the new session. The record under the id the request
  came in with is gone from the store, the user id is bound under the new id only, the
  new id is the one set in the response cookie, and it differs from the id of the
  incoming session, from the cookie the middleware accepted and from every id issued
  before (all of them are below \<open>next_sid a\<close>).
\<close>

theorem login_regenerates_session:
  assumes "target r = Login b"
      and "findOne (env r) (users a) (b ''email'') = Inr (Some u)"
      and "bcrypt_compare B (b ''password'') (password u) = Inr True"
      and "\<not> destroy_fails (env r)"
  shows "reply (serve B a r) =
           (respond 200 ''Login successful!'')
             \<lparr>setCookie := Some (next_sid (app (session_begin a (cookie r))))\<rparr> \<and>
         next_sid (app (session_begin a (cookie r))) \<noteq> sessionID (session_begin a (cookie r)) \<and>
         getcookie a (cookie r) \<noteq> Some (next_sid (app (session_begin a (cookie r)))) \<and>
         next_sid a \<le> next_sid (app (session_begin a (cookie r))) \<and>
         store (after (serve B a r)) (sessionID (session_begin a (cookie r))) = None \<and>
         store (after (serve B a r)) (next_sid (app (session_begin a (cookie r)))) =
           Some \<lparr>userId = Some (user_id u)\<rparr> \<and>
         trace (serve B a r) =
           [FindOne (b ''email''), BcryptCompare (b ''password'') (password u),
            Regenerate (sessionID (session_begin a (cookie r)))
                       (next_sid (app (session_begin a (cookie r)))),
            SetUserId (next_sid (app (session_begin a (cookie r)))) (user_id u)]"
proof -
  let ?h0 = "session_begin a (cookie r)"
  have lt: "sessionID ?h0 < next_sid (app ?h0)" and le: "next_sid a \<le> next_sid (app ?h0)"
    by (rule session_begin_ids)+
  have ck: "getcookie a (cookie r) \<noteq> Some (next_sid (app ?h0))"
    using le by (auto simp: getcookie_def split: option.splits if_splits)
  show ?thesis
    using lt le ck by (simp add: serve_login_ok[OF assms])
qed

theorem login_regenerates_session_witness:
  "target \<lparr>cookie = Some 3, target = Login credentials, env = no_faults\<rparr> = Login credentials \<and>
   findOne (env \<lparr>cookie = Some 3, target = Login credentials, env = no_faults\<rparr>)
     (users app_session) (credentials ''email'') = Inr (Some alice) \<and>
   bcrypt_compare sample_bcrypt (credentials ''password'') (password alice) = Inr True \<and>
   \<not> destroy_fails (env \<lparr>cookie = Some 3, target = Login credentials, env = no_faults\<rparr>) \<and>
   setCookie (reply (serve sample_bcrypt app_session
      \<lparr>cookie = Some 3, target = Login credentials, env = no_faults\<rparr>)) = Some 4 \<and>
   store (after (serve sample_bcrypt app_session
      \<lparr>cookie = Some 3, target = Login credentials, env = no_faults\<rparr>)) 3 = None \<and>
   store (after (serve sample_bcrypt app_session
      \<lparr>cookie = Some 3, target = Login credentials, env = no_faults\<rparr>)) 4 =
     Some \<lparr>userId = Some 7\<rparr>"
proof -
  let ?r = "\<lparr>cookie = Some 3, target = Login credentials, env = no_faults\<rparr>"
  have 1: "target ?r = Login credentials" by simp
  have 2: "findOne (env ?r) (users app_session) (credentials ''email'') = Inr (Some alice)"
    by (simp add: findOne_def sample_defs)
  have 3: "bcrypt_compare sample_bcrypt (credentials ''password'') (password alice) = Inr True"
    by (simp add: bcrypt_compare_def sample_defs)
  have 4: "\<not> destroy_fails (env ?r)" by (simp add: no_faults_def)
  have ids: "next_sid (app (session_begin app_session (cookie ?r))) = 4"
    "sessionID (session_begin app_session (cookie ?r)) = 3" "user_id alice = 7"
    by (simp_all add: session_begin_app_session) (simp_all add: app_session_def alice_def)
  from login_regenerates_session[OF 1 2 3 4] 1 2 3 4 ids
  show ?thesis by simp
qed

section \<open>Duplicate email at registration\<close>

text \<open>
  C2. When the lookup of POST /register finds a user with the request's email, the
  answer is 400 "User already exists." whatever username and password the body
  carries; users, contacts and sessions are as before, and the only library call made
  is the lookup: no hash is computed and nothing is saved.
\<close>

theorem register_duplicate_email:
  assumes "target r = Register b"
      and "findOne (env r) (users a) (b ''email'') = Inr (Some u)"
  shows "reply (serve B a r) = respond 400 ''User already exists.'' \<and>
         users (after (serve B a r)) = users a \<and>
         contacts (after (serve B a r)) = contacts a \<and>
         next_oid (after (serve B a r)) = next_oid a \<and>
         store (after (serve B a r)) = store a \<and>
         trace (serve B a r) = [FindOne (b ''email'')]"
  using assms
  by (simp add: serve_register register_def logcall_def session_begin_app
        session_begin_unmodified)

theorem register_duplicate_email_witness:
  "target \<lparr>cookie = None, target = Register second_form, env = no_faults\<rparr> =
     Register second_form \<and>
   findOne (env \<lparr>cookie = None, target = Register second_form, env = no_faults\<rparr>)
     (users app_alice) (second_form ''email'') = Inr (Some alice) \<and>
   reply (serve sample_bcrypt app_alice
      \<lparr>cookie = None, target = Register second_form, env = no_faults\<rparr>) =
     respond 400 ''User already exists.'' \<and>
   users (after (serve sample_bcrypt app_alice
      \<lparr>cookie = None, target = Register second_form, env = no_faults\<rparr>)) = [alice]"
proof -
  let ?r = "\<lparr>cookie = None, target = Register second_form, env = no_faults\<rparr>"
  have 1: "target ?r = Register second_form" by simp
  have 2: "findOne (env ?r) (users app_alice) (second_form ''email'') = Inr (Some alice)"
    by (simp add: findOne_def sample_defs)
  have 3: "users app_alice = [alice]" by (simp add: app_alice_def)
  from register_duplicate_email[where B = sample_bcrypt, OF 1 2] 1 2 3
  show ?thesis by simp
qed

section \<open>Failed logins\<close>

text \<open>
  C3. Two failed logins on the same state, neither carrying a password field: one for
  an email no user has, one for alice's email. For the unknown email the handler
  returns 400 "Invalid email or password." after the lookup. For the known email
  \<^verbatim>\<open>bcrypt.compare\<close> rejects its arguments, the rejection lands in the handler's
  catch, and the answer is 500 "Error logging in.". Neither request changes the
  state, and the two statuses differ: the response tells a known email from an
  unknown one, although both return statements of the handler send the same text.
\<close>

theorem login_absent_password_distinguishes:
  "findOne no_faults (users app_alice) (no_password ''email'') = Inr (Some alice) \<and>
   bcrypt_compare sample_bcrypt (no_password ''password'') (password alice) =
     Inl IllegalArguments \<and>
   reply (serve sample_bcrypt app_alice
      \<lparr>cookie = None, target = Login no_password, env = no_faults\<rparr>) =
     respond 500 ''Error logging in.'' \<and>
   findOne no_faults (users app_alice) (unknown_no_password ''email'') = Inr None \<and>
   reply (serve sample_bcrypt app_alice
      \<lparr>cookie = None, target = Login unknown_no_password, env = no_faults\<rparr>) =
     respond 400 ''Invalid email or password.'' \<and>
   after (serve sample_bcrypt app_alice
      \<lparr>cookie = None, target = Login no_password, env = no_faults\<rparr>) =
   after (serve sample_bcrypt app_alice
      \<lparr>cookie = None, target = Login unknown_no_password, env = no_faults\<rparr>) \<and>
   status (reply (serve sample_bcrypt app_alice
      \<lparr>cookie = None, target = Login no_password, env = no_faults\<rparr>)) \<noteq>
   status (reply (serve sample_bcrypt app_alice
      \<lparr>cookie = None, target = Login unknown_no_password, env = no_faults\<rparr>))"
proof -
  let ?k = "\<lparr>cookie = None, target = Login no_password, env = no_faults\<rparr>"
  let ?u = "\<lparr>cookie = None, target = Login unknown_no_password, env = no_faults\<rparr>"
  have fk: "findOne no_faults (users app_alice) (no_password ''email'') = Inr (Some alice)"
    by (simp add: findOne_def no_faults_def app_alice_def alice_def no_password_def)
  have ck: "bcrypt_compare sample_bcrypt (no_password ''password'') (password alice) =
              Inl IllegalArguments"
    by (simp add: bcrypt_compare_def no_password_def)
  have fu: "findOne no_faults (users app_alice) (unknown_no_password ''email'') = Inr None"
    by (simp add: findOne_def no_faults_def app_alice_def alice_def unknown_no_password_def)
  have rejk: "\<not> (\<exists>v. findOne (env ?k) (users app_alice) (no_password ''email'') = Inr (Some v) \<and>
                   bcrypt_compare sample_bcrypt (no_password ''password'') (password v) = Inr True)"
    by (simp add: bcrypt_compare_def no_password_def)
  have reju: "\<not> (\<exists>v. findOne (env ?u) (users app_alice) (unknown_no_password ''email'') =
                     Inr (Some v) \<and>
                   bcrypt_compare sample_bcrypt (unknown_no_password ''password'') (password v) =
                     Inr True)"
    using fu by simp
  have sk: "serve sample_bcrypt app_alice ?k =
              \<lparr>reply = fst (login sample_bcrypt (env ?k) no_password
                              (session_begin app_alice (cookie ?k))),
               after = app (session_begin app_alice (cookie ?k)),
               trace = calls (snd (login sample_bcrypt (env ?k) no_password
                              (session_begin app_alice (cookie ?k))))\<rparr>"
    by (rule serve_login_rejected[OF _ rejk]) simp
  have su: "serve sample_bcrypt app_alice ?u =
              \<lparr>reply = fst (login sample_bcrypt (env ?u) unknown_no_password
                              (session_begin app_alice (cookie ?u))),
               after = app (session_begin app_alice (cookie ?u)),
               trace = calls (snd (login sample_bcrypt (env ?u) unknown_no_password
                              (session_begin app_alice (cookie ?u))))\<rparr>"
    by (rule serve_login_rejected[OF _ reju]) simp
  have rk: "reply (serve sample_bcrypt app_alice ?k) = respond 500 ''Error logging in.''"
    using fk ck by (simp add: sk login_def session_begin_app logcall_simps Let_def)
  have ru: "reply (serve sample_bcrypt app_alice ?u) = respond 400 ''Invalid email or password.''"
    using fu by (simp add: su login_def session_begin_app logcall_simps Let_def)
  have ak: "after (serve sample_bcrypt app_alice ?k) = after (serve sample_bcrypt app_alice ?u)"
    by (simp add: sk su)
  have ne: "status (reply (serve sample_bcrypt app_alice ?k)) \<noteq>
            status (reply (serve sample_bcrypt app_alice ?u))"
    by (simp add: rk ru respond_def)
  from fk ck rk fu ru ak ne show ?thesis by blast
qed

text \<open>
  Where \<^verbatim>\<open>bcrypt.compare\<close> resolves to false (the password is a string that does
  not verify), the two kinds of failure do get the same response, in whatever states
  and sessions the two requests arrive: status 400, text "Invalid email or password.",
  no cookie set or cleared.
\<close>

theorem login_failure_uniform:
  assumes "target r1 = Login b1"
      and "findOne (env r1) (users a1) (b1 ''email'') = Inr None"
      and "target r2 = Login b2"
      and "findOne (env r2) (users a2) (b2 ''email'') = Inr (Some u)"
      and "bcrypt_compare B (b2 ''password'') (password u) = Inr False"
  shows "reply (serve B a1 r1) = respond 400 ''Invalid email or password.'' \<and>
         reply (serve B a2 r2) = reply (serve B a1 r1)"
proof -
  have 1: "reply (serve B a1 r1) = respond 400 ''Invalid email or password.''"
    using assms(1,2)
    by (simp add: serve_login_rejected login_def session_begin_app logcall_simps Let_def)
  have 2: "reply (serve B a2 r2) = respond 400 ''Invalid email or password.''"
    using assms(3,4,5)
    by (simp add: serve_login_rejected login_def session_begin_app logcall_simps Let_def)
  from 1 2 show ?thesis by simp
qed

theorem login_failure_uniform_witness:
  "target \<lparr>cookie = None, target = Login unknown_email, env = no_faults\<rparr> =
     Login unknown_email \<and>
   findOne (env \<lparr>cookie = None, target = Login unknown_email, env = no_faults\<rparr>)
     (users app_alice) (unknown_email ''email'') = Inr None \<and>
   target \<lparr>cookie = None, target = Login wrong_password, env = no_faults\<rparr> =
     Login wrong_password \<and>
   findOne (env \<lparr>cookie = None, target = Login wrong_password, env = no_faults\<rparr>)
     (users app_alice) (wrong_password ''email'') = Inr (Some alice) \<and>
   bcrypt_compare sample_bcrypt (wrong_password ''password'') (password alice) = Inr False \<and>
   reply (serve sample_bcrypt app_alice
      \<lparr>cookie = None, target = Login wrong_password, env = no_faults\<rparr>) =
   reply (serve sample_bcrypt app_alice
      \<lparr>cookie = None, target = Login unknown_email, env = no_faults\<rparr>)"
proof -
  let ?r1 = "\<lparr>cookie = None, target = Login unknown_email, env = no_faults\<rparr>"
  let ?r2 = "\<lparr>cookie = None, target = Login wrong_password, env = no_faults\<rparr>"
  have 1: "target ?r1 = Login unknown_email" by simp
  have 2: "findOne (env ?r1) (users app_alice) (unknown_email ''email'') = Inr None"
    by (simp add: findOne_def sample_defs)
  have 3: "target ?r2 = Login wrong_password" by simp
  have 4: "findOne (env ?r2) (users app_alice) (wrong_password ''email'') = Inr (Some alice)"
    by (simp add: findOne_def sample_defs)
  have 5: "bcrypt_compare sample_bcrypt (wrong_password ''password'') (password alice) = Inr False"
    by (simp add: bcrypt_compare_def sample_defs)
  from login_failure_uniform[OF 1 2 3 4 5] 1 2 3 4 5
  show ?thesis by simp
qed

section \<open>The registration race\<close>

text \<open>
  C4. Two registrations for the same email, both past the lookup before either insert:
  the second request looked the email up in the empty store and found nothing; the first
  request is then served completely (201); when the second resumes, its save is
  rejected by the unique index with a duplicate-key error, and the handler's catch-all
  answers 500 "Error registering user.", not the 400 "User already exists." of the
  lookup path.
\<close>

theorem register_race_server_error:
  "findOne no_faults (users app_empty) (second_form ''email'') = Inr None \<and>
   reply (serve sample_bcrypt app_empty
      \<lparr>cookie = None, target = Register alice_form, env = no_faults\<rparr>) =
     respond 201 ''User registered successfully!'' \<and>
   user_save no_faults
     (after (serve sample_bcrypt app_empty
        \<lparr>cookie = None, target = Register alice_form, env = no_faults\<rparr>))
     (second_form ''username'') (second_form ''email'') ''salt$other'' = Inl DuplicateKey \<and>
   fst (register_insert sample_bcrypt no_faults second_form
     ((logcall (FindOne (second_form ''email'')) (session_begin app_empty None))
        \<lparr>app := after (serve sample_bcrypt app_empty
           \<lparr>cookie = None, target = Register alice_form, env = no_faults\<rparr>)\<rparr>)) =
     respond 500 ''Error registering user.'' \<and>
   respond 500 ''Error registering user.'' \<noteq> respond 400 ''User already exists.''"
proof -
  let ?r = "\<lparr>cookie = None, target = Register alice_form, env = no_faults\<rparr>"
  have s: "serve sample_bcrypt app_empty ?r =
             \<lparr>reply = respond 201 ''User registered successfully!'',
              after = \<lparr>users = [\<lparr>user_id = 0, username = ''alice'', email = ''a@x.com'',
                                   password = ''salt$secret''\<rparr>],
                       contacts = [], next_oid = Suc 0, store = Map.empty, next_sid = Suc 0\<rparr>,
              trace = [FindOne (Some ''a@x.com''), BcryptHash (Some ''secret'') 10,
                       UserSave (Some ''alice'') (Some ''a@x.com'') ''salt$secret'']\<rparr>"
    by (simp add: serve_register register_def register_insert_def findOne_def bcrypt_hash_def
          user_save_def logcall_def session_begin_none generate_def sample_defs)
  have 1: "findOne no_faults (users app_empty) (second_form ''email'') = Inr None"
    by (simp add: findOne_def sample_defs)
  have 2: "user_save no_faults (after (serve sample_bcrypt app_empty ?r))
             (second_form ''username'') (second_form ''email'') ''salt$other'' = Inl DuplicateKey"
    by (simp only: s) (simp add: user_save_def no_faults_def second_form_def)
  have 3: "fst (register_insert sample_bcrypt no_faults second_form
             ((logcall (FindOne (second_form ''email'')) (session_begin app_empty None))
                \<lparr>app := after (serve sample_bcrypt app_empty ?r)\<rparr>)) =
           respond 500 ''Error registering user.''"
    by (simp only: s)
       (simp add: register_insert_def bcrypt_hash_def user_save_def logcall_simps
          no_faults_def second_form_def sample_bcrypt_def)
  have 4: "respond 500 ''Error registering user.'' \<noteq> respond 400 ''User already exists.''"
    by (simp add: respond_def)
  from s 1 2 3 4 show ?thesis by simp
qed

section \<open>Incomplete registration requests\<close>

text \<open>
  C5, as amended. A registration request whose username or email is missing or empty,
  or whose password is missing, never stores a user. It is answered with
  400 "User already exists." when the lookup finds the email, and otherwise with the
  server error 500 "Error registering user.": the failed validation (or the hasher's
  rejection of a missing password) is caught by the handler's catch-all.
\<close>

theorem register_incomplete_rejected:
  assumes "target r = Register b"
      and "\<not> required (b ''username'') \<or> \<not> required (b ''email'') \<or> b ''password'' = None"
  shows "(if \<exists>u. findOne (env r) (users a) (b ''email'') = Inr (Some u)
          then reply (serve B a r) = respond 400 ''User already exists.''
          else reply (serve B a r) = respond 500 ''Error registering user.'') \<and>
         users (after (serve B a r)) = users a"
proof (cases "findOne (env r) (users a) (b ''email'')")
  case (Inl e)
  with assms(1) show ?thesis
    by (simp add: serve_register register_def logcall_simps session_begin_app)
next
  case (Inr x)
  show ?thesis
  proof (cases x)
    case None
    with Inr assms(1) register_insert_incomplete[OF assms(2)] show ?thesis
      by (simp add: serve_register register_def logcall_simps session_begin_app)
  next
    case (Some u)
    with Inr assms(1) show ?thesis
      by (simp add: serve_register register_def logcall_simps session_begin_app)
  qed
qed

theorem register_incomplete_rejected_witness:
  "target \<lparr>cookie = None, target = Register no_username, env = no_faults\<rparr> =
     Register no_username \<and>
   \<not> required (no_username ''username'') \<and>
   reply (serve sample_bcrypt app_empty
      \<lparr>cookie = None, target = Register no_username, env = no_faults\<rparr>) =
     respond 500 ''Error registering user.'' \<and>
   users (after (serve sample_bcrypt app_empty
      \<lparr>cookie = None, target = Register no_username, env = no_faults\<rparr>)) = []"
proof -
  let ?r = "\<lparr>cookie = None, target = Register no_username, env = no_faults\<rparr>"
  have 1: "target ?r = Register no_username" by simp
  have 2: "\<not> required (no_username ''username'') \<or> \<not> required (no_username ''email'') \<or>
           no_username ''password'' = None"
    by (simp add: required_def no_username_def)
  have 3: "\<not> (\<exists>u. findOne (env ?r) (users app_empty) (no_username ''email'') = Inr (Some u))"
    by (simp add: findOne_def sample_defs)
  have 4: "users app_empty = []" by (simp add: app_empty_def)
  from register_incomplete_rejected[where B = sample_bcrypt and a = app_empty, OF 1 2] 3 4
  have "reply (serve sample_bcrypt app_empty ?r) = respond 500 ''Error registering user.''"
    and "users (after (serve sample_bcrypt app_empty ?r)) = []"
    by simp_all
  moreover have "\<not> required (no_username ''username'')"
    by (simp add: required_def no_username_def)
  ultimately show ?thesis using 1 by blast
qed

text \<open>
  C5 as written fails on both counts. A request without a username, sent to a store
  with no users, is answered with the server error 500, not with a 4xx status. A
  request whose password is the empty string does not fail at all: the empty string is
  hashed, the hash passes the required check, and the answer is 201.
\<close>

theorem register_invalid_input_not_client_error:
  "status (reply (serve sample_bcrypt app_empty
      \<lparr>cookie = None, target = Register no_username, env = no_faults\<rparr>)) = 500 \<and>
   \<not> (400 \<le> status (reply (serve sample_bcrypt app_empty
      \<lparr>cookie = None, target = Register no_username, env = no_faults\<rparr>)) \<and>
      status (reply (serve sample_bcrypt app_empty
      \<lparr>cookie = None, target = Register no_username, env = no_faults\<rparr>)) < 500) \<and>
   empty_password ''password'' = Some [] \<and>
   status (reply (serve sample_bcrypt app_empty
      \<lparr>cookie = None, target = Register empty_password, env = no_faults\<rparr>)) = 201"
  by (simp add: serve_register register_def register_insert_def findOne_def bcrypt_hash_def
        user_save_def logcall_simps respond_def session_begin_app sample_defs)


section \<open>Regeneration failure at login\<close>

text \<open>
  C6. When the password verified but the session store fails during regeneration,
  POST /login answers 500 "Error logging in.", never assigns \<^verbatim>\<open>userId\<close>, and every
  user id bound to a session id afterwards was bound to it before: no session becomes
  authenticated.
\<close>

theorem login_regeneration_failure:
  assumes "target r = Login b"
      and "findOne (env r) (users a) (b ''email'') = Inr (Some u)"
      and "bcrypt_compare B (b ''password'') (password u) = Inr True"
      and "destroy_fails (env r)"
  shows "status (reply (serve B a r)) = 500 \<and>
         sent (reply (serve B a r)) = ''Error logging in.'' \<and>
         (\<forall>i v. bound (after (serve B a r)) i = Some v \<longrightarrow> bound a i = Some v) \<and>
         (\<forall>i v. SetUserId i v \<notin> set (trace (serve B a r)))"
  by (auto simp: serve_login_regen_failed[OF assms] respond_def bound_def session_begin_app
        split: if_splits)

theorem login_regeneration_failure_witness:
  "target \<lparr>cookie = None, target = Login credentials, env = destroy_fault\<rparr> =
     Login credentials \<and>
   findOne (env \<lparr>cookie = None, target = Login credentials, env = destroy_fault\<rparr>)
     (users app_alice) (credentials ''email'') = Inr (Some alice) \<and>
   bcrypt_compare sample_bcrypt (credentials ''password'') (password alice) = Inr True \<and>
   destroy_fails (env \<lparr>cookie = None, target = Login credentials, env = destroy_fault\<rparr>) \<and>
   status (reply (serve sample_bcrypt app_alice
      \<lparr>cookie = None, target = Login credentials, env = destroy_fault\<rparr>)) = 500 \<and>
   bound (after (serve sample_bcrypt app_alice
      \<lparr>cookie = None, target = Login credentials, env = destroy_fault\<rparr>)) 0 = None"
proof -
  let ?r = "\<lparr>cookie = None, target = Login credentials, env = destroy_fault\<rparr>"
  have 1: "target ?r = Login credentials" by simp
  have 2: "findOne (env ?r) (users app_alice) (credentials ''email'') = Inr (Some alice)"
    by (simp add: findOne_def sample_defs)
  have 3: "bcrypt_compare sample_bcrypt (credentials ''password'') (password alice) = Inr True"
    by (simp add: bcrypt_compare_def sample_defs)
  have 4: "destroy_fails (env ?r)" by (simp add: destroy_fault_def)
  have 5: "bound app_alice 0 = None" by (simp add: bound_def app_alice_def)
  from login_regeneration_failure[OF 1 2 3 4]
  have "status (reply (serve sample_bcrypt app_alice ?r)) = 500"
    and "\<forall>v. bound (after (serve sample_bcrypt app_alice ?r)) 0 = Some v \<longrightarrow>
           bound app_alice 0 = Some v"
    by blast+
  with 5 have "status (reply (serve sample_bcrypt app_alice ?r)) = 500"
    and "bound (after (serve sample_bcrypt app_alice ?r)) 0 = None"
    by (simp, cases "bound (after (serve sample_bcrypt app_alice ?r)) 0") auto
  with 1 2 3 4 show ?thesis by blast
qed

section \<open>Logout\<close>

text \<open>
  C7. A logout that presents an issued session cookie and whose destroy succeeds
  answers 200 "Logout successful!" with the cookie cleared, and the store has no record
  under that id any more (the record is removed, not edited). After any sequence of
  further requests, GET /dashboard presenting the old cookie is answered with
  401 "Unauthorized. Please log in.".
\<close>

theorem logout_then_dashboard_unauthorized:
  assumes "target r = Logout" and "cookie r = Some i" and "i < next_sid a"
      and "\<not> destroy_fails (env r)"
      and "target d = Dashboard" and "cookie d = Some i"
  shows "reply (serve B a r) = (respond 200 ''Logout successful!'')\<lparr>clearCookie := True\<rparr> \<and>
         store (after (serve B a r)) i = None \<and>
         reply (serve B (run B (after (serve B a r)) rs) d) =
           respond 401 ''Unauthorized. Please log in.''"
proof -
  let ?a1 = "after (serve B a r)"
  have le: "next_sid a \<le> next_sid (app (session_begin a (cookie r)))"
    by (rule session_begin_ids)
  have gone: "store ?a1 i = None"
  proof (cases "store a i")
    case None
    with assms(1,4) show ?thesis by (simp add: serve_logout session_begin_app)
  next
    case (Some s)
    with assms(1,2,3,4) show ?thesis
      by (simp add: serve_logout session_begin_loaded)
  qed
  have issued: "i < next_sid ?a1"
    using assms(1,3,4) le by (simp add: serve_logout)
  from run_keeps_destroyed[OF issued gone, of B rs]
  have "store (run B ?a1 rs) i = None" by simp
  from dashboard_destroyed[OF assms(5,6) this] gone assms(1,4)
  show ?thesis by (simp add: serve_logout)
qed

theorem logout_then_dashboard_unauthorized_witness:
  "target \<lparr>cookie = Some 3, target = Logout, env = no_faults\<rparr> = Logout \<and>
   cookie \<lparr>cookie = Some 3, target = Logout, env = no_faults\<rparr> = Some 3 \<and>
   3 < next_sid app_session \<and>
   \<not> destroy_fails (env \<lparr>cookie = Some 3, target = Logout, env = no_faults\<rparr>) \<and>
   target \<lparr>cookie = Some 3, target = Dashboard, env = no_faults\<rparr> = Dashboard \<and>
   cookie \<lparr>cookie = Some 3, target = Dashboard, env = no_faults\<rparr> = Some 3 \<and>
   store (after (serve sample_bcrypt app_session
      \<lparr>cookie = Some 3, target = Logout, env = no_faults\<rparr>)) 3 = None \<and>
   reply (serve sample_bcrypt
      (run sample_bcrypt
         (after (serve sample_bcrypt app_session
            \<lparr>cookie = Some 3, target = Logout, env = no_faults\<rparr>))
         [\<lparr>cookie = None, target = Login credentials, env = no_faults\<rparr>])
      \<lparr>cookie = Some 3, target = Dashboard, env = no_faults\<rparr>) =
     respond 401 ''Unauthorized. Please log in.''"
proof -
  let ?r = "\<lparr>cookie = Some 3, target = Logout, env = no_faults\<rparr>"
  let ?d = "\<lparr>cookie = Some 3, target = Dashboard, env = no_faults\<rparr>"
  have 1: "target ?r = Logout" by simp
  have 2: "cookie ?r = Some 3" by simp
  have 3: "3 < next_sid app_session" by (simp add: app_session_def)
  have 4: "\<not> destroy_fails (env ?r)" by (simp add: no_faults_def)
  have 5: "target ?d = Dashboard" by simp
  have 6: "cookie ?d = Some 3" by simp
  from logout_then_dashboard_unauthorized
         [where B = sample_bcrypt
            and rs = "[\<lparr>cookie = None, target = Login credentials, env = no_faults\<rparr>]",
          OF 1 2 3 4 5 6]
       1 2 3 4 5 6
  show ?thesis by blast
qed

section \<open>The dashboard guard\<close>

text \<open>
  C8. GET /dashboard always has a current session; when no user id is bound to it the
  answer is 401 "Unauthorized. Please log in.", and when one is bound the answer is
  200 "Welcome to your dashboard!".
\<close>

theorem dashboard_guard:
  assumes "target r = Dashboard"
  shows "\<exists>s. sess (session_begin a (cookie r)) = Some s \<and>
           (userId s = None \<longrightarrow>
              reply (serve B a r) = respond 401 ''Unauthorized. Please log in.'') \<and>
           (\<forall>u. userId s = Some u \<longrightarrow>
              reply (serve B a r) = respond 200 ''Welcome to your dashboard!'')"
  using assms
  by (auto simp: serve_dashboard dashboard_def session_begin_unmodified split: option.splits)

theorem dashboard_guard_witness:
  "target \<lparr>cookie = Some 3, target = Dashboard, env = no_faults\<rparr> = Dashboard \<and>
   reply (serve sample_bcrypt app_session
      \<lparr>cookie = Some 3, target = Dashboard, env = no_faults\<rparr>) =
     respond 200 ''Welcome to your dashboard!'' \<and>
   reply (serve sample_bcrypt app_alice
      \<lparr>cookie = None, target = Dashboard, env = no_faults\<rparr>) =
     respond 401 ''Unauthorized. Please log in.''"
proof -
  let ?r = "\<lparr>cookie = Some 3, target = Dashboard, env = no_faults\<rparr>"
  let ?q = "\<lparr>cookie = None, target = Dashboard, env = no_faults\<rparr>"
  have 1: "target ?r = Dashboard" by simp
  have 2: "target ?q = Dashboard" by simp
  have s: "sess (session_begin app_session (cookie ?r)) = Some \<lparr>userId = Some 7\<rparr>"
    by (simp add: session_begin_app_session)
  have t: "sess (session_begin app_alice (cookie ?q)) = Some \<lparr>userId = None\<rparr>"
    by (simp add: session_begin_none generate_def)
  from dashboard_guard[OF 1, of app_session sample_bcrypt] s
  have a: "reply (serve sample_bcrypt app_session ?r) = respond 200 ''Welcome to your dashboard!''"
    by auto
  from dashboard_guard[OF 2, of app_alice sample_bcrypt] t
  have b: "reply (serve sample_bcrypt app_alice ?q) = respond 401 ''Unauthorized. Please log in.''"
    by auto
  from 1 a b show ?thesis by blast
qed

section \<open>Effect of a successful registration\<close>

text \<open>
  C9. A registration answered with 201 appends exactly one user, whose password field
  is the value \<^verbatim>\<open>bcrypt.hash\<close> returned for the request's password at cost 10 with
  the salt drawn; that hash, not the request's password, is what is passed to the save.
  The session store is unchanged and the response sets and clears no cookie.
\<close>

theorem register_success_effect:
  assumes "target r = Register b"
      and "status (reply (serve B a r)) = 201"
  shows "\<exists>n e p. b ''username'' = Some n \<and> b ''email'' = Some e \<and> b ''password'' = Some p \<and>
           users (after (serve B a r)) =
             users a @ [\<lparr>user_id = next_oid a, username = n, email = e,
                         password = hash_fn B p 10 (salt (env r))\<rparr>] \<and>
           trace (serve B a r) =
             [FindOne (Some e), BcryptHash (Some p) 10,
              UserSave (Some n) (Some e) (hash_fn B p 10 (salt (env r)))] \<and>
           store (after (serve B a r)) = store a \<and>
           setCookie (reply (serve B a r)) = None \<and>
           \<not> clearCookie (reply (serve B a r))"
proof -
  let ?h0 = "session_begin a (cookie r)"
  define h1 where "h1 = logcall (FindOne (b ''email'')) ?h0"
  have h1: "app h1 = app ?h0" "calls h1 = [FindOne (b ''email'')]"
    by (simp_all add: h1_def logcall_simps session_begin_unmodified)
  from assms have s: "status (fst (register B (env r) b ?h0)) = 201"
    by (simp add: serve_register)
  from register_201[OF s]
  have eq: "register B (env r) b ?h0 = register_insert B (env r) b h1"
    by (simp add: h1_def)
  with s have "status (fst (register_insert B (env r) b h1)) = 201"
    by simp
  from register_insert_201[OF this] obtain n e p where
    f: "b ''username'' = Some n" "b ''email'' = Some e" "b ''password'' = Some p" and
    res: "register_insert B (env r) b h1 =
             (respond 201 ''User registered successfully!'',
              h1\<lparr>calls := calls h1 @
                   [BcryptHash (Some p) 10,
                    UserSave (Some n) (Some e) (hash_fn B p 10 (salt (env r)))],
                app := (app h1)
                   \<lparr>users := users (app h1) @
                      [\<lparr>user_id = next_oid (app h1), username = n, email = e,
                        password = hash_fn B p 10 (salt (env r))\<rparr>],
                    next_oid := Suc (next_oid (app h1))\<rparr>\<rparr>)"
    by blast
  show ?thesis
    using f assms(1)
    by (simp add: serve_register eq res h1 respond_def session_begin_app)
qed

theorem register_success_effect_witness:
  "target \<lparr>cookie = None, target = Register alice_form, env = no_faults\<rparr> =
     Register alice_form \<and>
   status (reply (serve sample_bcrypt app_empty
      \<lparr>cookie = None, target = Register alice_form, env = no_faults\<rparr>)) = 201 \<and>
   users (after (serve sample_bcrypt app_empty
      \<lparr>cookie = None, target = Register alice_form, env = no_faults\<rparr>)) =
     [\<lparr>user_id = 0, username = ''alice'', email = ''a@x.com'', password = ''salt$secret''\<rparr>] \<and>
   store (after (serve sample_bcrypt app_empty
      \<lparr>cookie = None, target = Register alice_form, env = no_faults\<rparr>)) = Map.empty"
proof -
  let ?r = "\<lparr>cookie = None, target = Register alice_form, env = no_faults\<rparr>"
  have 1: "target ?r = Register alice_form" by simp
  have 2: "status (reply (serve sample_bcrypt app_empty ?r)) = 201"
    by (simp add: serve_register register_def register_insert_def findOne_def bcrypt_hash_def
          user_save_def logcall_simps respond_def session_begin_app sample_defs)
  from register_success_effect[OF 1 2] obtain n e p where
    f: "alice_form ''username'' = Some n" "alice_form ''email'' = Some e"
       "alice_form ''password'' = Some p" and
    u: "users (after (serve sample_bcrypt app_empty ?r)) =
          users app_empty @ [\<lparr>user_id = next_oid app_empty, username = n, email = e,
                               password = hash_fn sample_bcrypt p 10 (salt (env ?r))\<rparr>]" and
    st: "store (after (serve sample_bcrypt app_empty ?r)) = store app_empty"
    by blast
  from f have "n = ''alice''" "e = ''a@x.com''" "p = ''secret''"
    by (simp_all add: alice_form_def)
  with u st have
    "users (after (serve sample_bcrypt app_empty ?r)) =
       [\<lparr>user_id = 0, username = ''alice'', email = ''a@x.com'', password = ''salt$secret''\<rparr>]"
    "store (after (serve sample_bcrypt app_empty ?r)) = Map.empty"
    by (simp_all add: app_empty_def sample_bcrypt_def no_faults_def)
  with 1 2 show ?thesis by blast
qed

section \<open>Only a successful login binds a user id\<close>

text \<open>
  C10. If handling a request binds a user id to a session id that was not bound to it
  before, or assigns \<^verbatim>\<open>userId\<close> at all, then the request is a POST /login answered
  with 200 whose lookup found the user and whose password verified, and the id bound
  is that user's. Register, logout, dashboard and contact never do so.
\<close>

theorem only_login_binds_user:
  assumes "(bound (after (serve B a r)) i = Some v \<and> bound a i \<noteq> Some v) \<or>
           SetUserId i v \<in> set (trace (serve B a r))"
  shows "\<exists>b u. target r = Login b \<and> status (reply (serve B a r)) = 200 \<and>
           findOne (env r) (users a) (b ''email'') = Inr (Some u) \<and>
           bcrypt_compare B (b ''password'') (password u) = Inr True \<and>
           v = user_id u"
proof (cases "target r")
  case (Register b)
  with assms show ?thesis
    by (auto simp: serve_register register_stores session_begin_app bound_def
          session_begin_unmodified dest!: register_calls)
next
  case (Login b)
  show ?thesis
  proof (cases "\<exists>u. findOne (env r) (users a) (b ''email'') = Inr (Some u) \<and>
                   bcrypt_compare B (b ''password'') (password u) = Inr True")
    case False
    then have rej: "\<not> (\<exists>u. findOne (env r) (users (app (session_begin a (cookie r))))
                              (b ''email'') = Inr (Some u) \<and>
                          bcrypt_compare B (b ''password'') (password u) = Inr True)"
      by (simp add: session_begin_app)
    from assms Login False login_rejected(7)[OF rej]
    show ?thesis
      by (auto simp: serve_login_rejected session_begin_app bound_def session_begin_unmodified)
  next
    case True
    then obtain u where u: "findOne (env r) (users a) (b ''email'') = Inr (Some u)"
        "bcrypt_compare B (b ''password'') (password u) = Inr True"
      by blast
    show ?thesis
    proof (cases "destroy_fails (env r)")
      case True
      with assms show ?thesis
        by (auto simp: serve_login_regen_failed[OF Login u True] bound_def session_begin_app
              split: if_splits)
    next
      case False
      with assms Login u show ?thesis
        by (auto simp: serve_login_ok[OF Login u False] bound_def session_begin_app respond_def
              split: if_splits)
    qed
  qed
next
  case Logout
  with assms show ?thesis
    by (auto simp: serve_logout bound_def session_begin_app split: if_splits)
next
  case Dashboard
  with assms show ?thesis
    by (auto simp: serve_dashboard bound_def session_begin_app)
next
  case (Contact b)
  with assms show ?thesis
    by (auto simp: serve_contact contact_stores session_begin_app bound_def
          session_begin_unmodified dest!: contact_calls)
qed

theorem only_login_binds_user_witness:
  "((bound (after (serve sample_bcrypt app_session
        \<lparr>cookie = Some 3, target = Login credentials, env = no_faults\<rparr>)) 4 = Some 7 \<and>
     bound app_session 4 \<noteq> Some 7) \<or>
    SetUserId 4 7 \<in> set (trace (serve sample_bcrypt app_session
        \<lparr>cookie = Some 3, target = Login credentials, env = no_faults\<rparr>))) \<and>
   status (reply (serve sample_bcrypt app_session
        \<lparr>cookie = Some 3, target = Login credentials, env = no_faults\<rparr>)) = 200"
proof -
  let ?r = "\<lparr>cookie = Some 3, target = Login credentials, env = no_faults\<rparr>"
  have t: "target ?r = Login credentials" by simp
  have f: "findOne (env ?r) (users app_session) (credentials ''email'') = Inr (Some alice)"
    by (simp add: findOne_def sample_defs)
  have c: "bcrypt_compare sample_bcrypt (credentials ''password'') (password alice) = Inr True"
    by (simp add: bcrypt_compare_def sample_defs)
  have d: "\<not> destroy_fails (env ?r)" by (simp add: no_faults_def)
  have ids: "next_sid (app (session_begin app_session (cookie ?r))) = 4" "user_id alice = 7"
    by (simp_all add: session_begin_app_session) (simp_all add: app_session_def alice_def)
  have 1: "bound (after (serve sample_bcrypt app_session ?r)) 4 = Some 7"
    using ids by (simp add: serve_login_ok[OF t f c d] bound_def)
  have 2: "bound app_session 4 \<noteq> Some 7" by (simp add: bound_def app_session_def)
  from 1 2 have h: "(bound (after (serve sample_bcrypt app_session ?r)) 4 = Some 7 \<and>
                     bound app_session 4 \<noteq> Some 7) \<or>
                    SetUserId 4 7 \<in> set (trace (serve sample_bcrypt app_session ?r))"
    by blast
  from only_login_binds_user[OF h] have "status (reply (serve sample_bcrypt app_session ?r)) = 200"
    by blast
  with h show ?thesis by blast
qed

end
